theory Spec2Isabelle
  imports Complex_Main "HOL-Library.Log_Nat"
begin

section \<open>Python numbers\<close>

text \<open>
  The exceptions that the modelled statements and the Python builtins they call can
  raise: \<^verbatim>\<open>ValueError\<close> and \<^verbatim>\<open>OverflowError\<close>. \<open>InvalidInput\<close> is the error kind that the
  specification names; the sources define no exception of that name and no statement
  raises it.
\<close>

datatype py_error = ValueError | OverflowError | InvalidInput

text \<open>
  A Python \<^verbatim>\<open>float\<close> is an IEEE 754 binary64 value. \<open>Finite m e\<close> is the number
  \<open>m \<cdot> 2\<^sup>e\<close>, and with \<open>m = 0\<close> it is \<open>+0.0\<close>; \<open>NegZero\<close> is \<open>-0.0\<close>. A binary64 value has
  a 53 bit significand and an exponent of at least -1074; the operations below round
  their exact results to such values, to nearest with ties to even.
\<close>

datatype double = Finite int int | NegZero | PosInf | NegInf | NaN


fun is_nan :: "double \<Rightarrow> bool" where
  "is_nan NaN = True"
| "is_nan x = False"

fun is_inf :: "double \<Rightarrow> bool" where
  "is_inf PosInf = True"
| "is_inf NegInf = True"
| "is_inf x = False"

fun is_zero :: "double \<Rightarrow> bool" where
  "is_zero (Finite m e) = (m = 0)"
| "is_zero NegZero = True"
| "is_zero x = False"

fun sign_bit :: "double \<Rightarrow> bool" where
  "sign_bit (Finite m e) = (m < 0)"
| "sign_bit NegZero = True"
| "sign_bit NegInf = True"
| "sign_bit x = False"

text \<open>\<open>m \<cdot> 2\<^sup>e\<close> as a value, or the infinity of its sign when it is \<open>2\<^sup>1\<^sup>0\<^sup>2\<^sup>4\<close> or more in size.\<close>

definition finite_or_inf :: "int \<Rightarrow> int \<Rightarrow> double" where
  "finite_or_inf m e =
     (if m \<noteq> 0 \<and> 1024 < bitlen \<bar>m\<bar> + e then (if 0 < m then PosInf else NegInf)
      else Finite m e)"

text \<open>
  Rounding the exact result \<open>n \<cdot> 2\<^sup>e\<close>. \<open>dropped_bits\<close> is the number of low bits to
  drop so that 53 bits remain and the exponent is not below -1074;
  \<open>round_half_even\<close> drops them, the dropped part deciding the direction and a tie
  going to the even significand; a negative result that rounds to zero is \<open>-0.0\<close>.
\<close>

definition dropped_bits :: "int \<Rightarrow> int \<Rightarrow> int" where
  "dropped_bits n e = max (bitlen \<bar>n\<bar> - 53) (- 1074 - e)"

definition round_half_even :: "int \<Rightarrow> int \<Rightarrow> int" where
  "round_half_even n k =
     (let q = n div 2 ^ nat k;
          r = n mod 2 ^ nat k;
          half = 2 ^ nat (k - 1)
      in if half < r \<or> (r = half \<and> odd q) then q + 1 else q)"

definition round_double :: "int \<Rightarrow> int \<Rightarrow> double" where
  "round_double n e =
     (let k = dropped_bits n e in
      if k \<le> 0 then finite_or_inf n e
      else
        (let q = round_half_even n k
         in if q = 0 \<and> n < 0 then NegZero else finite_or_inf q (e + k)))"

fun dneg :: "double \<Rightarrow> double" where
  "dneg (Finite m e) = (if m = 0 then NegZero else Finite (- m) e)"
| "dneg NegZero = Finite 0 0"
| "dneg PosInf = NegInf"
| "dneg NegInf = PosInf"
| "dneg NaN = NaN"

text \<open>Addition; an exact zero sum is \<open>+0.0\<close> unless both operands are \<open>-0.0\<close>.\<close>

fun dadd :: "double \<Rightarrow> double \<Rightarrow> double" where
  "dadd NaN y = NaN"
| "dadd x NaN = NaN"
| "dadd PosInf NegInf = NaN"
| "dadd NegInf PosInf = NaN"
| "dadd PosInf y = PosInf"
| "dadd x PosInf = PosInf"
| "dadd NegInf y = NegInf"
| "dadd x NegInf = NegInf"
| "dadd NegZero y = y"
| "dadd x NegZero = x"
| "dadd (Finite m1 e1) (Finite m2 e2) =
     (let e = min e1 e2
      in round_double (m1 * 2 ^ nat (e1 - e) + m2 * 2 ^ nat (e2 - e)) e)"

definition dsub :: "double \<Rightarrow> double \<Rightarrow> double" where
  "dsub x y = dadd x (dneg y)"

text \<open>Multiplication; the sign of a zero or infinite product is the product of the signs.\<close>

fun dmul :: "double \<Rightarrow> double \<Rightarrow> double" where
  "dmul NaN y = NaN"
| "dmul x NaN = NaN"
| "dmul (Finite m1 e1) (Finite m2 e2) =
     (if m1 * m2 = 0 then (if (m1 < 0) \<noteq> (m2 < 0) then NegZero else Finite 0 0)
      else round_double (m1 * m2) (e1 + e2))"
| "dmul x y =
     (if (is_inf x \<and> is_zero y) \<or> (is_zero x \<and> is_inf y) then NaN
      else if is_inf x \<or> is_inf y then (if sign_bit x \<noteq> sign_bit y then NegInf else PosInf)
      else (if sign_bit x \<noteq> sign_bit y then NegZero else Finite 0 0))"


text \<open>\<^verbatim>\<open>==\<close> on floats compares the numbers: the zeros are equal, a NaN equals nothing.\<close>

fun float_eq :: "double \<Rightarrow> double \<Rightarrow> bool" where
  "float_eq NaN y = False"
| "float_eq x NaN = False"
| "float_eq NegZero y = is_zero y"
| "float_eq x NegZero = is_zero x"
| "float_eq (Finite m1 e1) (Finite m2 e2) =
     (let e = min e1 e2 in m1 * 2 ^ nat (e1 - e) = m2 * 2 ^ nat (e2 - e))"
| "float_eq x y = (x = y)"

text \<open>A number is an \<^verbatim>\<open>int\<close>, unbounded, or a \<^verbatim>\<open>float\<close>.\<close>

datatype pynum = PyInt int | PyFloat double

text \<open>
  \<^verbatim>\<open>float(n)\<close> for an \<^verbatim>\<open>int\<close>, as every mixed operation applies it: correctly rounded, and
  \<^verbatim>\<open>OverflowError\<close> when the integer is too large.
\<close>

definition float_of_int :: "int \<Rightarrow> py_error + double" where
  "float_of_int n =
     (let x = round_double n 0 in if is_inf x then Inl OverflowError else Inr x)"

fun py_float :: "pynum \<Rightarrow> py_error + double" where
  "py_float (PyInt n) = float_of_int n"
| "py_float (PyFloat x) = Inr x"

fun py_add :: "pynum \<Rightarrow> pynum \<Rightarrow> py_error + pynum" where
  "py_add (PyInt a) (PyInt b) = Inr (PyInt (a + b))"
| "py_add a b =
     (case py_float a of
        Inl err \<Rightarrow> Inl err
      | Inr x \<Rightarrow>
          (case py_float b of
             Inl err \<Rightarrow> Inl err
           | Inr y \<Rightarrow> Inr (PyFloat (dadd x y))))"

fun py_sub :: "pynum \<Rightarrow> pynum \<Rightarrow> py_error + pynum" where
  "py_sub (PyInt a) (PyInt b) = Inr (PyInt (a - b))"
| "py_sub a b =
     (case py_float a of
        Inl err \<Rightarrow> Inl err
      | Inr x \<Rightarrow>
          (case py_float b of
             Inl err \<Rightarrow> Inl err
           | Inr y \<Rightarrow> Inr (PyFloat (dsub x y))))"


text \<open>
  \<^verbatim>\<open>int(val)\<close>: a float is truncated toward zero; a NaN raises \<^verbatim>\<open>ValueError\<close> and an
  infinity \<^verbatim>\<open>OverflowError\<close>.
\<close>

fun py_int :: "pynum \<Rightarrow> py_error + int" where
  "py_int (PyInt n) = Inr n"
| "py_int (PyFloat (Finite m e)) =
     Inr (if 0 \<le> e then m * 2 ^ nat e
          else if 0 \<le> m then m div 2 ^ nat (- e)
          else - ((- m) div 2 ^ nat (- e)))"
| "py_int (PyFloat NegZero) = Inr 0"
| "py_int (PyFloat NaN) = Inl ValueError"
| "py_int (PyFloat x) = Inl OverflowError"

text \<open>\<^verbatim>\<open>val < 0\<close>: false for a NaN and for both zeros.\<close>

fun py_lt_zero :: "pynum \<Rightarrow> bool" where
  "py_lt_zero (PyInt n) = (n < 0)"
| "py_lt_zero (PyFloat (Finite m e)) = (m < 0)"
| "py_lt_zero (PyFloat NegInf) = True"
| "py_lt_zero (PyFloat x) = False"

section \<open>Detection settings (detection\_settings.py)\<close>

text \<open>
  The attributes of \<^verbatim>\<open>DefaultDetection\<close>, one record field per attribute, in the order
  of the class body. Areas, lengths and kernel sizes are Python integers (\<open>int\<close>); the
  attributes the source annotates \<^verbatim>\<open>float\<close> hold decimal literals and are never computed
  with, so they are kept as the real number the literal denotes. \<^verbatim>\<open>default_pivot_point\<close>
  is a tuple or \<^verbatim>\<open>None\<close>; an orientation list \<^verbatim>\<open>[X Flip, Y Flip, Rotation]\<close> is a triple.
\<close>

record detection =
  circle_size :: "int \<times> int"
  circularity_min :: real
  default_pivot_point :: "(int \<times> int) option"
  deviation_cutoff :: int
  gauss :: int
  hough_min_length :: int
  rect_size :: "int \<times> int"
  threshold :: int
  ang2pxl :: int
  default_clock_angle :: real
  fid_triangle_area :: real
  orientation_left :: "bool \<times> bool \<times> real"
  orientation_right :: "bool \<times> bool \<times> real"

text \<open>The class attributes of \<^verbatim>\<open>DefaultDetection\<close> (lines 9 to 23).\<close>

definition class_attributes :: detection where
  "class_attributes =
     \<lparr> circle_size = (1000, 6000),
       circularity_min = 0.8,
       default_pivot_point = Some (1800, 1050),
       deviation_cutoff = 100,
       gauss = 11,
       hough_min_length = 30,
       rect_size = (10000, 30000),
       threshold = 30,
       ang2pxl = 65,
       default_clock_angle = 0.0,
       fid_triangle_area = 0,
       orientation_left = (False, False, 0.0),
       orientation_right = (False, False, 0.0) \<rparr>"

text \<open>
  \<^verbatim>\<open>_even_to_odd(val: float | int)\<close>, statement by statement: the test \<^verbatim>\<open>val < 0\<close>, the
  test \<^verbatim>\<open>int(val) % 2 == 0\<close> (its \<^verbatim>\<open>int\<close> can raise), \<^verbatim>\<open>val += 1\<close> in the arithmetic of
  \<^verbatim>\<open>val\<close>'s type, and the final \<^verbatim>\<open>int(val)\<close>. \<^verbatim>\<open>%\<close> has a positive divisor, where it agrees
  with \<open>mod\<close>. (An identifier cannot start with an underscore, so the leading
  underscore of the private methods is dropped.)
\<close>

definition even_to_odd :: "pynum \<Rightarrow> py_error + int" where
  "even_to_odd val =
     (if py_lt_zero val then py_int (PyInt 1)
      else
        (case py_int val of
           Inl err \<Rightarrow> Inl err
         | Inr i \<Rightarrow>
             if i mod 2 = 0 then
               (case py_add val (PyInt 1) of
                  Inl err \<Rightarrow> Inl err
                | Inr val' \<Rightarrow> py_int val')
             else py_int val))"

text \<open>
  \<^verbatim>\<open>_limit_fiducial_size\<close>: the assignment to \<^verbatim>\<open>self.circle_size\<close> sits inside the outer
  \<^verbatim>\<open>if\<close>, so the object is returned as it is when the outer test fails.
\<close>

definition limit_fiducial_size :: "detection \<Rightarrow> detection" where
  "limit_fiducial_size self =
     (let (new_min, new_max) = circle_size self in
      if snd (circle_size self) > fst (rect_size self) then
        (let new_max = fst (rect_size self);
             new_min = (if fst (circle_size self) > new_max then 0 else new_min)
         in self\<lparr>circle_size := (new_min, new_max)\<rparr>)
      else self)"

text \<open>The six classes of the module; a method call dispatches on the object's class.\<close>

datatype profile_class =
  DefaultDetection | GalileoDetection | MidasDetection
  | ML2Detection | HydraDetection | TriOpticsDetection

text \<open>
  \<^verbatim>\<open>set_test_system_specifics\<close>: the base class body is \<^verbatim>\<open>pass\<close>, which
  \<^verbatim>\<open>HydraDetection\<close> and \<^verbatim>\<open>TriOpticsDetection\<close> inherit; the other three override it.
\<close>

fun set_test_system_specifics :: "profile_class \<Rightarrow> string \<Rightarrow> detection \<Rightarrow> detection" where
  "set_test_system_specifics GalileoDetection test_system self =
     (if test_system = ''JOHNNY5'' then self\<lparr>hough_min_length := 40\<rparr>
      else if test_system = ''BAT'' then
        self\<lparr>default_pivot_point := None, orientation_right := (True, False, 0.0)\<rparr>
      else self)"
| "set_test_system_specifics MidasDetection test_system self =
     (if test_system = ''PIN'' then
        self\<lparr>ang2pxl := 80,
             circle_size := (1000, 10000),
             circularity_min := 0.3,
             default_clock_angle := 0,
             fid_triangle_area := 12.4,
             gauss := 201,
             orientation_left := (True, False, 0.0),
             orientation_right := (True, True, 0.0)\<rparr>
      else self)"
| "set_test_system_specifics ML2Detection test_system self =
     (if test_system = ''TET'' then
        self\<lparr>ang2pxl := 65,
             fid_triangle_area := 59.3,
             orientation_left := (False, False, 90),
             orientation_right := (False, False, 90)\<rparr>
      else self)"
| "set_test_system_specifics DefaultDetection test_system self = self"
| "set_test_system_specifics HydraDetection test_system self = self"
| "set_test_system_specifics TriOpticsDetection test_system self = self"

text \<open>
  \<^verbatim>\<open>_check_kwargs\<close>: the keyword arguments are a dictionary from names to values; only
  the key \<^verbatim>\<open>test_system\<close> is looked at.
\<close>

definition check_kwargs ::
  "profile_class \<Rightarrow> (string \<rightharpoonup> string) \<Rightarrow> detection \<Rightarrow> detection" where
  "check_kwargs cls kwargs self =
     (case kwargs ''test_system'' of
        None \<Rightarrow> self
      | Some test_system \<Rightarrow> set_test_system_specifics cls test_system self)"

text \<open>
  \<^verbatim>\<open>DefaultDetection.__init__\<close> reads the class attributes, normalises \<^verbatim>\<open>gauss\<close> (an
  exception of \<^verbatim>\<open>_even_to_odd\<close> would leave the constructor) and clamps the fiducial
  size; it does not look at its keyword arguments.
\<close>

definition default_init :: "(string \<rightharpoonup> string) \<Rightarrow> py_error + detection" where
  "default_init kwargs =
     (case even_to_odd (PyInt (gauss class_attributes)) of
        Inl err \<Rightarrow> Inl err
      | Inr val \<Rightarrow> Inr (limit_fiducial_size (class_attributes\<lparr>gauss := val\<rparr>)))"

text \<open>
  The constructors. Each subclass calls \<^verbatim>\<open>super().__init__()\<close> without arguments, assigns
  its own values and ends with \<^verbatim>\<open>self._check_kwargs(**kwargs)\<close>; an exception of the base
  constructor leaves the subclass constructor too.
\<close>

fun init :: "profile_class \<Rightarrow> (string \<rightharpoonup> string) \<Rightarrow> py_error + detection" where
  "init DefaultDetection kwargs = default_init kwargs"
| "init GalileoDetection kwargs =
     (case default_init Map.empty of
        Inl err \<Rightarrow> Inl err
      | Inr self \<Rightarrow>
          Inr (check_kwargs GalileoDetection kwargs
            (self
              \<lparr>ang2pxl := 65,
               circle_size := (1000, 5000),
               circularity_min := 0.7,
               default_clock_angle := -5,
               default_pivot_point := Some (1900, 1100),
               deviation_cutoff := 150,
               fid_triangle_area := 9.8,
               gauss := 1,
               hough_min_length := 50,
               orientation_left := (False, False, 0.0),
               orientation_right := (False, False, 0.0),
               rect_size := (10000, 50000),
               threshold := 10\<rparr>)))"
| "init MidasDetection kwargs =
     (case default_init Map.empty of
        Inl err \<Rightarrow> Inl err
      | Inr self \<Rightarrow>
          Inr (check_kwargs MidasDetection kwargs
            (self
              \<lparr>ang2pxl := 65,
               circle_size := (1000, 6000),
               circularity_min := 0.8,
               default_clock_angle := -5,
               default_pivot_point := None,
               deviation_cutoff := 200,
               fid_triangle_area := 11.8,
               gauss := 89,
               hough_min_length := 0,
               orientation_left := (True, False, -90.0),
               orientation_right := (False, False, 90.0),
               rect_size := (15000, 35000),
               threshold := 100\<rparr>)))"
| "init ML2Detection kwargs =
     (case default_init Map.empty of
        Inl err \<Rightarrow> Inl err
      | Inr self \<Rightarrow>
          Inr (check_kwargs ML2Detection kwargs
            (self
              \<lparr>ang2pxl := 80,
               circle_size := (1000, 10000),
               circularity_min := 0.2,
               default_clock_angle := -5,
               default_pivot_point := None,
               deviation_cutoff := 150,
               fid_triangle_area := 58.3,
               gauss := 1,
               orientation_left := (False, True, 90),
               orientation_right := (True, True, 90),
               rect_size := (10000, 50000),
               threshold := 30\<rparr>)))"
| "init HydraDetection kwargs =
     (case default_init Map.empty of
        Inl err \<Rightarrow> Inl err
      | Inr self \<Rightarrow>
          Inr (check_kwargs HydraDetection kwargs
            (self
              \<lparr>ang2pxl := 78,
               circle_size := (0, 0),
               circularity_min := 0,
               default_clock_angle := 0,
               default_pivot_point := None,
               deviation_cutoff := 200,
               fid_triangle_area := 0,
               gauss := 21,
               hough_min_length := 15,
               orientation_left := (False, False, 0.0),
               orientation_right := (False, False, 0.0),
               rect_size := (10000, 30000),
               threshold := 30\<rparr>)))"
| "init TriOpticsDetection kwargs =
     (case default_init Map.empty of
        Inl err \<Rightarrow> Inl err
      | Inr self \<Rightarrow>
          Inr (check_kwargs TriOpticsDetection kwargs
            (self
              \<lparr>default_pivot_point := None,
               deviation_cutoff := 250,
               gauss := 1,
               hough_min_length := 500,
               orientation_left := (False, False, 0.0),
               orientation_right := (False, False, 0.0),
               threshold := 10\<rparr>)))"

text \<open>
  The strings each class's \<^verbatim>\<open>set_test_system_specifics\<close> compares its argument with.
\<close>

fun known_tags :: "profile_class \<Rightarrow> string list" where
  "known_tags GalileoDetection = [''JOHNNY5'', ''BAT'']"
| "known_tags MidasDetection = [''PIN'']"
| "known_tags ML2Detection = [''TET'']"
| "known_tags DefaultDetection = []"
| "known_tags HydraDetection = []"
| "known_tags TriOpticsDetection = []"

section \<open>Geometry helpers (processing\_support.py)\<close>

text \<open>A point is a tuple of two numbers.\<close>

type_synonym point = "pynum \<times> pynum"

text \<open>The builtin \<^verbatim>\<open>min\<close> on a list: \<^verbatim>\<open>ValueError\<close> when the list is empty.\<close>

definition py_min :: "nat list \<Rightarrow> py_error + nat" where
  "py_min xs = (case xs of [] \<Rightarrow> Inl ValueError | x # rest \<Rightarrow> Inr (fold min rest x))"

text \<open>
  \<^verbatim>\<open>get_nearest_point\<close>. The two \<^verbatim>\<open>scipy\<close> calls are library code and enter as
  parameters: \<open>kdtree_query references check_point\<close> stands for
  \<^verbatim>\<open>spatial.KDTree(references).query([check_point])\<close>, which raises or yields the distance
  to the nearest neighbour (the index it yields as well is bound to a name that is
  never read), and \<open>euclidean\<close> for \<^verbatim>\<open>spatial.distance.euclidean\<close>. The list
  comprehension keeps the indices whose \<open>euclidean\<close> distance is \<^verbatim>\<open>==\<close> to the tree's.
\<close>

definition get_nearest_point ::
  "(point list \<Rightarrow> point \<Rightarrow> py_error + double) \<Rightarrow> (point \<Rightarrow> point \<Rightarrow> double)
     \<Rightarrow> point \<Rightarrow> point list \<Rightarrow> py_error + (nat \<times> double)" where
  "get_nearest_point kdtree_query euclidean check_point references =
     (case kdtree_query references check_point of
        Inl err \<Rightarrow> Inl err
      | Inr distance \<Rightarrow>
          (let min_distance = distance;
               nearest_indices =
                 [i. (i, ref) \<leftarrow> enumerate 0 references,
                     float_eq (euclidean check_point ref) min_distance]
           in case py_min nearest_indices of
                Inl err \<Rightarrow> Inl err
              | Inr min_index \<Rightarrow> Inr (min_index, min_distance)))"





text \<open>
  The constants of CPython's \<^verbatim>\<open>math\<close> module: \<^verbatim>\<open>Py_MATH_PI\<close> is the float nearest to
  \<open>\<pi>\<close>, \<^verbatim>\<open>0x1.921fb54442d18p+1\<close>, and \<^verbatim>\<open>radToDeg = 180.0 / Py_MATH_PI\<close> is the float
  \<^verbatim>\<open>0x1.ca5dc1a63c1f8p+5\<close>.
\<close>

definition Py_MATH_PI :: double where
  "Py_MATH_PI = Finite 884279719003555 (- 48)"

definition radToDeg :: double where
  "radToDeg = Finite 1007958012753983 (- 44)"

text \<open>
  \<^verbatim>\<open>copysign(x, y)\<close> for an \<open>x\<close> without sign, as \<^verbatim>\<open>math.atan2\<close> calls it.
\<close>

definition copysign :: "double \<Rightarrow> double \<Rightarrow> double" where
  "copysign x y = (if sign_bit y then dneg x else x)"

text \<open>
  \<^verbatim>\<open>math.atan2(y, x)\<close> on floats, as CPython's \<^verbatim>\<open>m_atan2\<close> has it: a NaN, an infinity or
  a zero \<open>y\<close> is answered by the function itself, and every other pair is passed to
  the C library's \<^verbatim>\<open>atan2\<close>, which is the parameter \<open>libm_atan2\<close>.
\<close>

definition math_atan2 :: "(double \<Rightarrow> double \<Rightarrow> double) \<Rightarrow> double \<Rightarrow> double \<Rightarrow> double" where
  "math_atan2 libm_atan2 y x =
     (if is_nan x \<or> is_nan y then NaN
      else if is_inf y then
        (if is_inf x then
           (if \<not> sign_bit x then copysign (dmul (Finite 1 (- 2)) Py_MATH_PI) y
            else copysign (dmul (Finite 3 (- 2)) Py_MATH_PI) y)
         else copysign (dmul (Finite 1 (- 1)) Py_MATH_PI) y)
      else if is_inf x \<or> is_zero y then
        (if \<not> sign_bit x then copysign (Finite 0 0) y
         else copysign Py_MATH_PI y)
      else libm_atan2 y x)"

text \<open>\<^verbatim>\<open>math.degrees(x)\<close> is the float product \<^verbatim>\<open>x * radToDeg\<close>.\<close>

definition math_degrees :: "double \<Rightarrow> double" where
  "math_degrees x = dmul x radToDeg"

text \<open>
  \<^verbatim>\<open>get_point_angle\<close>: the two differences are taken in the arithmetic of the
  coordinates, and \<^verbatim>\<open>math.atan2\<close> converts its arguments to floats.
\<close>

definition get_point_angle ::
  "(double \<Rightarrow> double \<Rightarrow> double) \<Rightarrow> point \<Rightarrow> point \<Rightarrow> py_error + double" where
  "get_point_angle libm_atan2 point1 point2 =
     (case py_sub (snd point2) (snd point1) of
        Inl err \<Rightarrow> Inl err
      | Inr dy \<Rightarrow>
          (case py_sub (fst point2) (fst point1) of
             Inl err \<Rightarrow> Inl err
           | Inr dx \<Rightarrow>
               (case py_float dy of
                  Inl err \<Rightarrow> Inl err
                | Inr y \<Rightarrow>
                    (case py_float dx of
                       Inl err \<Rightarrow> Inl err
                     | Inr x \<Rightarrow>
                         (let angle_radians = math_atan2 libm_atan2 y x;
                              angle_degrees = math_degrees angle_radians
                          in Inr angle_degrees)))))"



section \<open>Kernel normalisation\<close>

text \<open>On an \<^verbatim>\<open>int\<close> the function never raises, and computes the following.\<close>

lemma even_to_odd_int:
  "even_to_odd (PyInt val) =
     Inr (if val < 0 then 1 else if val mod 2 = 0 then val + 1 else val)"
  by (simp add: even_to_odd_def)

lemma even_to_odd_int_odd:
  "\<exists>r. even_to_odd (PyInt val) = Inr r \<and> odd r \<and> 1 \<le> r"
proof (cases "val = 0")
  case True
  then show ?thesis by (simp add: even_to_odd_int)
next
  case False
  then show ?thesis by (auto simp add: even_to_odd_int)
qed

lemma even_to_odd_int_idempotent:
  "even_to_odd (PyInt val) = Inr r \<Longrightarrow> even_to_odd (PyInt r) = Inr r"
  by (cases "val = 0") (auto simp add: even_to_odd_int odd_iff_mod_2_eq_one split: if_splits)

text \<open>
  C3. The claim is that every input gives an odd integer of at least 1. On an \<^verbatim>\<open>int\<close>
  that holds (\<open>even_to_odd_int_odd\<close>). On a \<^verbatim>\<open>float\<close>, which the signature admits, it
  does not: the increment \<^verbatim>\<open>val += 1\<close> is rounded, so \<^verbatim>\<open>0.9999999999999999\<close>, whose integer
  part 0 is even, becomes \<^verbatim>\<open>2.0\<close> and the result is 2, and \<^verbatim>\<open>1e16\<close> keeps its value and the
  result is the even \<open>10\<^sup>1\<^sup>6\<close>; a NaN and an infinity make \<^verbatim>\<open>int\<close> raise.
\<close>

theorem even_to_odd_float_returns_even:
  "even_to_odd (PyFloat (Finite 9007199254740991 (- 53))) = Inr 2
   \<and> even_to_odd (PyFloat (Finite 152587890625 16)) = Inr 10000000000000000
   \<and> even_to_odd (PyFloat NaN) = Inl ValueError
   \<and> even_to_odd (PyFloat PosInf) = Inl OverflowError"
  by code_simp

section \<open>Clamping the fiducial size\<close>

text \<open>The three outcomes of \<^verbatim>\<open>_limit_fiducial_size\<close>, by the two comparisons it makes.\<close>

lemma limit_fiducial_size_cases:
  "limit_fiducial_size self =
     (if snd (circle_size self) \<le> fst (rect_size self) then self
      else if fst (circle_size self) \<le> fst (rect_size self)
        then self\<lparr>circle_size := (fst (circle_size self), fst (rect_size self))\<rparr>
      else self\<lparr>circle_size := (0, fst (rect_size self))\<rparr>)"
  by (simp add: limit_fiducial_size_def Let_def split: prod.split)

text \<open>
  C4. For every pair of ranges, after \<^verbatim>\<open>_limit_fiducial_size\<close> the upper bound of
  \<^verbatim>\<open>circle_size\<close> does not exceed the lower bound of \<^verbatim>\<open>rect_size\<close>. When the original upper
  bound exceeds the rect lower bound it is replaced by that bound, and the lower bound
  is reset to 0 when it exceeds the new upper bound and kept otherwise; when the
  original upper bound does not exceed it, nothing changes.
\<close>

theorem limit_fiducial_size_clamps:
  "snd (circle_size (limit_fiducial_size self)) \<le> fst (rect_size (limit_fiducial_size self))
   \<and> rect_size (limit_fiducial_size self) = rect_size self
   \<and> (snd (circle_size self) > fst (rect_size self) \<longrightarrow>
        snd (circle_size (limit_fiducial_size self)) = fst (rect_size self)
        \<and> (fst (circle_size self) > fst (rect_size self) \<longrightarrow>
             fst (circle_size (limit_fiducial_size self)) = 0)
        \<and> (fst (circle_size self) \<le> fst (rect_size self) \<longrightarrow>
             fst (circle_size (limit_fiducial_size self)) = fst (circle_size self)))
   \<and> (snd (circle_size self) \<le> fst (rect_size self) \<longrightarrow>
        limit_fiducial_size self = self)"
  by (simp add: limit_fiducial_size_cases)

theorem limit_fiducial_size_clamps_witness:
  "snd (circle_size (class_attributes\<lparr>circle_size := (7000, 12000), rect_size := (5000, 9000)\<rparr>))
     > fst (rect_size (class_attributes\<lparr>circle_size := (7000, 12000), rect_size := (5000, 9000)\<rparr>))
   \<and> fst (circle_size (class_attributes\<lparr>circle_size := (7000, 12000), rect_size := (5000, 9000)\<rparr>))
     > fst (rect_size (class_attributes\<lparr>circle_size := (7000, 12000), rect_size := (5000, 9000)\<rparr>))
   \<and> circle_size (limit_fiducial_size
         (class_attributes\<lparr>circle_size := (7000, 12000), rect_size := (5000, 9000)\<rparr>)) = (0, 5000)
   \<and> snd (circle_size class_attributes) \<le> fst (rect_size class_attributes)
   \<and> limit_fiducial_size class_attributes = class_attributes"
  using limit_fiducial_size_clamps
          [of "class_attributes\<lparr>circle_size := (7000, 12000), rect_size := (5000, 9000)\<rparr>"]
        limit_fiducial_size_clamps [of class_attributes]
  by (simp add: class_attributes_def prod_eq_iff)

lemma limit_fiducial_size_idempotent:
  "limit_fiducial_size (limit_fiducial_size self) = limit_fiducial_size self"
  by (simp add: limit_fiducial_size_cases)

text \<open>
  C9. The claim is that normalisation is idempotent. The clamp is
  (\<open>limit_fiducial_size_idempotent\<close>), and so is \<^verbatim>\<open>_even_to_odd\<close> on an \<^verbatim>\<open>int\<close>
  (\<open>even_to_odd_int_idempotent\<close>). On a \<^verbatim>\<open>float\<close> it is not: \<^verbatim>\<open>_even_to_odd(1e16)\<close> is the
  even \<open>10\<^sup>1\<^sup>6\<close>, which a second call turns into \<open>10\<^sup>1\<^sup>6 + 1\<close>, and
  \<^verbatim>\<open>_even_to_odd(0.9999999999999999)\<close> is 2, which a second call turns into 3.
\<close>

theorem even_to_odd_not_idempotent_on_float:
  "even_to_odd (PyFloat (Finite 152587890625 16)) = Inr 10000000000000000
   \<and> even_to_odd (PyInt 10000000000000000) = Inr 10000000000000001
   \<and> even_to_odd (PyFloat (Finite 9007199254740991 (- 53))) = Inr 2
   \<and> even_to_odd (PyInt 2) = Inr 3"
  by code_simp

text \<open>
  C10. \<^verbatim>\<open>_limit_fiducial_size\<close> writes \<^verbatim>\<open>circle_size\<close> only: the result is the input
  object with at most that field replaced, so \<^verbatim>\<open>rect_size\<close> and every other field keep
  their values; and the new lower bound of \<^verbatim>\<open>circle_size\<close> is the old one or 0.
\<close>

theorem limit_fiducial_size_frame:
  "limit_fiducial_size self = self\<lparr>circle_size := circle_size (limit_fiducial_size self)\<rparr>
   \<and> rect_size (limit_fiducial_size self) = rect_size self
   \<and> (fst (circle_size (limit_fiducial_size self)) = fst (circle_size self)
        \<or> fst (circle_size (limit_fiducial_size self)) = 0)"
  by (simp add: limit_fiducial_size_cases)

section \<open>Test system specifics\<close>

text \<open>
  C6. For every class, a tag that is none of the strings its
  \<^verbatim>\<open>set_test_system_specifics\<close> tests for leaves the whole object as it was; the method
  has no failing branch.
\<close>

theorem unknown_tag_noop:
  "test_system \<notin> set (known_tags cls) \<Longrightarrow>
     set_test_system_specifics cls test_system self = self"
  by (cases cls) simp_all

theorem unknown_tag_noop_witness:
  "''BIG'' \<notin> set (known_tags ML2Detection)
   \<and> set_test_system_specifics ML2Detection ''BIG''
         (class_attributes\<lparr>ang2pxl := 80, circle_size := (1000, 10000)\<rparr>)
       = class_attributes\<lparr>ang2pxl := 80, circle_size := (1000, 10000)\<rparr>
   \<and> ''PIN'' \<notin> set (known_tags GalileoDetection)
   \<and> set_test_system_specifics GalileoDetection ''PIN'' class_attributes = class_attributes"
  using unknown_tag_noop
          [of "''BIG''" ML2Detection "class_attributes\<lparr>ang2pxl := 80, circle_size := (1000, 10000)\<rparr>"]
        unknown_tag_noop [of "''PIN''" GalileoDetection class_attributes]
  by simp

section \<open>Constructed profiles\<close>

text \<open>The base constructor finds the class attributes already normalised.\<close>

lemma default_init_eq: "default_init kwargs = Inr class_attributes"
  by (simp add: default_init_def even_to_odd_int limit_fiducial_size_cases class_attributes_def)

text \<open>
  C1. Every class of the catalogue, constructed with any keyword arguments (a
  \<^verbatim>\<open>test_system\<close> tag of any value, or none), is constructed without an exception and
  yields an object whose \<^verbatim>\<open>gauss\<close> is odd and at least 1 and whose \<^verbatim>\<open>circle_size\<close> upper
  bound does not exceed the \<^verbatim>\<open>rect_size\<close> lower bound.
\<close>

theorem constructed_profiles_normalized:
  "\<exists>self. init cls kwargs = Inr self
     \<and> odd (gauss self) \<and> 1 \<le> gauss self
     \<and> snd (circle_size self) \<le> fst (rect_size self)"
  by (cases cls; cases "kwargs ''test_system''")
     (simp_all add: default_init_eq check_kwargs_def class_attributes_def)

section \<open>Nearest point\<close>

text \<open>The comprehension over \<^verbatim>\<open>enumerate\<close> is a filter of the index range.\<close>

lemma nearest_indices_filter:
  "[i. (i, ref) \<leftarrow> enumerate n references, P ref]
     = filter (\<lambda>i. P (references ! (i - n))) [n..<n + length references]"
proof (induction references arbitrary: n)
  case Nil
  then show ?case by simp
next
  case (Cons r rs)
  have shift: "(r # rs) ! (i - n) = rs ! (i - Suc n)" if "Suc n \<le> i" for i
  proof -
    from that have "i - n = Suc (i - Suc n)" by arith
    then show ?thesis by simp
  qed
  have tail: "filter (\<lambda>i. P ((r # rs) ! (i - n))) [Suc n..<Suc n + length rs]
          = filter (\<lambda>i. P (rs ! (i - Suc n))) [Suc n..<Suc n + length rs]"
  proof (rule filter_cong [OF refl])
    fix i assume "i \<in> set [Suc n..<Suc n + length rs]"
    then have "Suc n \<le> i" by (simp only: set_upt atLeastLessThan_iff)
    then show "P ((r # rs) ! (i - n)) = P (rs ! (i - Suc n))" by (simp only: shift)
  qed
  have range: "[n..<n + length (r # rs)] = n # [Suc n..<Suc n + length rs]"
    by (simp add: upt_conv_Cons del: upt_Suc)
  have "[i. (i, ref) \<leftarrow> enumerate n (r # rs), P ref]
          = (if P r then [n] else []) @ [i. (i, ref) \<leftarrow> enumerate (Suc n) rs, P ref]"
    by simp
  also have "\<dots> = (if P r then [n] else [])
                    @ filter (\<lambda>i. P (rs ! (i - Suc n))) [Suc n..<Suc n + length rs]"
    by (simp only: Cons.IH)
  also have "\<dots> = filter (\<lambda>i. P ((r # rs) ! (i - n))) (n # [Suc n..<Suc n + length rs])"
    using tail by (simp del: upt_Suc)
  finally show ?case by (simp only: range)
qed

lemma nearest_indices_upt:
  "[i. (i, ref) \<leftarrow> enumerate 0 references, P ref]
     = filter (\<lambda>i. P (references ! i)) [0..<length references]"
  using nearest_indices_filter [where n = 0 and references = references and P = P] by simp

text \<open>\<^verbatim>\<open>min\<close> of the filtered, ascending index range is the least index that passes.\<close>

lemma py_min_filter_upt:
  assumes "i < n" and "P i"
  shows "py_min (filter P [0..<n]) = Inr (LEAST j. P j)"
proof -
  let ?xs = "filter P [0..<n]"
  have mem: "i \<in> set ?xs" using assms by simp
  then obtain x rest where xs: "?xs = x # rest" by (cases ?xs) auto
  have "fold min rest x = Min (set ?xs)"
    by (simp add: xs Min.set_eq_fold [symmetric])
  also have "\<dots> = (LEAST j. P j)"
  proof (rule Min_eqI)
    show "finite (set ?xs)" by simp
    show "\<And>y. y \<in> set ?xs \<Longrightarrow> (LEAST j. P j) \<le> y" by (simp add: Least_le)
    have "P (LEAST j. P j)" using assms(2) by (rule LeastI)
    moreover have "(LEAST j. P j) \<le> i" using assms(2) by (rule Least_le)
    ultimately show "(LEAST j. P j) \<in> set ?xs" using assms(1) by simp
  qed
  finally show ?thesis by (simp add: py_min_def xs)
qed

text \<open>
  When some reference has a \<open>euclidean\<close> distance equal to the tree's, the function
  returns the first such index and the tree's distance.
\<close>

lemma get_nearest_point_lowest_index:
  assumes "kdtree_query references check_point = Inr distance"
    and "i < length references"
    and "float_eq (euclidean check_point (references ! i)) distance"
  shows "\<exists>min_index.
           get_nearest_point kdtree_query euclidean check_point references
             = Inr (min_index, distance)
           \<and> min_index \<le> i
           \<and> float_eq (euclidean check_point (references ! min_index)) distance
           \<and> (\<forall>j < min_index. \<not> float_eq (euclidean check_point (references ! j)) distance)"
proof -
  let ?P = "\<lambda>j. float_eq (euclidean check_point (references ! j)) distance"
  let ?m = "LEAST j. ?P j"
  have "py_min (filter ?P [0..<length references]) = Inr ?m"
    using assms(2,3) by (rule py_min_filter_upt)
  then have "get_nearest_point kdtree_query euclidean check_point references = Inr (?m, distance)"
    by (simp add: get_nearest_point_def assms(1) nearest_indices_upt)
  moreover have "?m \<le> i" using assms(3) by (rule Least_le)
  moreover have "?P ?m" using assms(3) by (rule LeastI)
  moreover have "\<forall>j < ?m. \<not> ?P j" using not_less_Least by blast
  ultimately show ?thesis by blast
qed

text \<open>
  C2. The claim is that every non-empty list gives the lowest index at minimum
  distance. The function finds that index by comparing, with \<^verbatim>\<open>==\<close>, the distance the
  tree reports with the distance \<^verbatim>\<open>euclidean\<close> computes: two floating-point computations
  of the two libraries. Whenever they differ for every reference, also in the last
  bit only, the index list is empty and \<^verbatim>\<open>min\<close> raises \<^verbatim>\<open>ValueError\<close>: so for the single
  reference \<^verbatim>\<open>(0.1, 0.1)\<close> and the query \<^verbatim>\<open>(0, 0)\<close>, where one library yields
  \<^verbatim>\<open>0.1414213562373095\<close> and the other \<^verbatim>\<open>0.14142135623730953\<close>.
\<close>

theorem get_nearest_point_raises_on_unequal_distances:
  assumes "kdtree_query references check_point = Inr distance"
    and "\<forall>ref \<in> set references. \<not> float_eq (euclidean check_point ref) distance"
  shows "get_nearest_point kdtree_query euclidean check_point references = Inl ValueError"
proof -
  have "filter (\<lambda>i. float_eq (euclidean check_point (references ! i)) distance)
          [0..<length references] = []"
    using assms(2) by (simp add: filter_empty_conv)
  then show ?thesis
    by (simp add: get_nearest_point_def assms(1) nearest_indices_upt py_min_def)
qed

theorem get_nearest_point_raises_on_unequal_distances_witness:
  "(\<lambda>references check_point. Inr (Finite 2547620669010309 (- 54)))
       [(PyFloat (Finite 3602879701896397 (- 55)), PyFloat (Finite 3602879701896397 (- 55)))]
       (PyInt 0, PyInt 0)
     = (Inr (Finite 2547620669010309 (- 54)) :: py_error + double)
   \<and> \<not> float_eq (Finite 5095241338020619 (- 55)) (Finite 2547620669010309 (- 54))
   \<and> get_nearest_point
        (\<lambda>references check_point. Inr (Finite 2547620669010309 (- 54)))
        (\<lambda>u v. Finite 5095241338020619 (- 55))
        (PyInt 0, PyInt 0)
        [(PyFloat (Finite 3602879701896397 (- 55)), PyFloat (Finite 3602879701896397 (- 55)))]
      = Inl ValueError"
  using get_nearest_point_raises_on_unequal_distances
    [of "\<lambda>references check_point. Inr (Finite 2547620669010309 (- 54))"
        "[(PyFloat (Finite 3602879701896397 (- 55)), PyFloat (Finite 3602879701896397 (- 55)))]"
        "(PyInt 0, PyInt 0)" "Finite 2547620669010309 (- 54)"
        "\<lambda>u v. Finite 5095241338020619 (- 55)"]
  by simp

text \<open>
  C5. On an empty list of references \<^verbatim>\<open>get_nearest_point\<close> returns no value: it ends
  with the exception of the library call when that raises, and with the \<^verbatim>\<open>ValueError\<close>
  of \<^verbatim>\<open>min\<close> on the empty index list when the library call returns. The function has no
  check of its own.
\<close>

theorem get_nearest_point_empty:
  "get_nearest_point kdtree_query euclidean check_point [] =
     (case kdtree_query [] check_point of
        Inl err \<Rightarrow> Inl err
      | Inr distance \<Rightarrow> Inl ValueError)"
  by (simp add: get_nearest_point_def py_min_def split: sum.split)

text \<open>
  With \<^verbatim>\<open>scipy\<close>'s constructor, which raises \<^verbatim>\<open>ValueError\<close> on an empty list, the exception
  is that \<^verbatim>\<open>ValueError\<close> and not \<open>InvalidInput\<close>; the same when the library call returns.
\<close>

theorem get_nearest_point_empty_not_InvalidInput:
  "get_nearest_point (\<lambda>references check_point. Inl ValueError) (\<lambda>u v. NaN) (PyInt 0, PyInt 0) []
     = Inl ValueError
   \<and> get_nearest_point (\<lambda>references check_point. Inl ValueError) (\<lambda>u v. NaN) (PyInt 0, PyInt 0) []
     \<noteq> Inl InvalidInput
   \<and> get_nearest_point (\<lambda>references check_point. Inr PosInf) (\<lambda>u v. NaN) (PyInt 0, PyInt 0) []
     = Inl ValueError"
  by (simp add: get_nearest_point_def py_min_def)

section \<open>Midpoint\<close>








section \<open>Rounding and the bound 180\<close>

















section \<open>Angle\<close>






















lemma get_point_angle_floats:
  "get_point_angle libm_atan2 (PyFloat x1, PyFloat y1) (PyFloat x2, PyFloat y2)
     = Inr (math_degrees (math_atan2 libm_atan2 (dsub y2 y1) (dsub x2 x1)))"
  by (simp add: get_point_angle_def)




end
